theory Spec2Isabelle
  imports Main
begin

section \<open>Values of a decoded YAML document\<close>

text \<open>
  \<^verbatim>\<open>filemaker.py\<close> walks the value that \<^verbatim>\<open>YAML(typ='safe').load\<close> returns. The
  Python values a safe load produces are modelled by one datatype. A \<^verbatim>\<open>dict\<close> is an
  association list in insertion order (the order \<^verbatim>\<open>for k, v in dct.items()\<close> and
  \<^verbatim>\<open>for key in dct\<close> follow); the keys of a Python dict are pairwise different, so for
  such a list \<^verbatim>\<open>dct[key]\<close> inside \<^verbatim>\<open>for key in dct\<close> is the second component of
  the pair being visited.

  A \<^verbatim>\<open>float\<close> is carried as the text that \<^verbatim>\<open>str\<close> gives for it (floating point
  itself is not modelled). A \<^verbatim>\<open>datetime.date\<close> is year, month, day; a
  \<^verbatim>\<open>datetime.datetime\<close> is year, month, day, hour, minute, second. \<^verbatim>\<open>bytes\<close>
  and \<^verbatim>\<open>set\<close> values (YAML \<^verbatim>\<open>!!binary\<close> and \<^verbatim>\<open>!!set\<close>) are left out.
\<close>

datatype pyval =
    VStr string
  | VInt int
  | VFloat string
  | VBool bool
  | VNone
  | VDate nat nat nat
  | VDateTime nat nat nat nat nat nat
  | VList "pyval list"
  | VDict "(pyval \<times> pyval) list"

text \<open>The runtime type of a value, \<^verbatim>\<open>type(val)\<close>.\<close>

datatype pytype =
  TStr | TInt | TFloat | TBool | TNoneType | TDate | TDateTime | TList | TDict

fun type_of :: "pyval \<Rightarrow> pytype" where
  "type_of (VStr _) = TStr"
| "type_of (VInt _) = TInt"
| "type_of (VFloat _) = TFloat"
| "type_of (VBool _) = TBool"
| "type_of VNone = TNoneType"
| "type_of (VDate _ _ _) = TDate"
| "type_of (VDateTime _ _ _ _ _ _) = TDateTime"
| "type_of (VList _) = TList"
| "type_of (VDict _) = TDict"

text \<open>
  \<^verbatim>\<open>isinstance(val, basestring)\<close>: \<^verbatim>\<open>str\<close> only, in this model.
  \<^verbatim>\<open>isinstance(val, numbers.Number)\<close>: \<^verbatim>\<open>int\<close> and \<^verbatim>\<open>float\<close>, and
  \<^verbatim>\<open>bool\<close> as well, since \<^verbatim>\<open>bool\<close> is a subclass of \<^verbatim>\<open>int\<close>.
\<close>

fun is_basestring :: "pyval \<Rightarrow> bool" where
  "is_basestring (VStr _) = True"
| "is_basestring _ = False"

fun is_Number :: "pyval \<Rightarrow> bool" where
  "is_Number (VInt _) = True"
| "is_Number (VFloat _) = True"
| "is_Number (VBool _) = True"
| "is_Number _ = False"

subsection \<open>The errors that can be raised\<close>

text \<open>
  \<^verbatim>\<open>UnknownType\<close> is raised in two places, with two messages: by \<^verbatim>\<open>value2str\<close>
  (the message holds \<^verbatim>\<open>%r\<close> of the value and \<^verbatim>\<open>%s\<close> of its type; the model keeps
  the value and the type) and by \<^verbatim>\<open>FilemakerExplicit.make_dict_item\<close> (a fixed
  message). The other constructors are the built-in exceptions the library calls raise;
  \<^verbatim>\<open>OtherError\<close> stands for whatever a caller's code raises.
\<close>

datatype oserr =
  FileExists | FileNotFound | NotADirectory | IsADirectory | PermissionDenied
  | BadFileDescriptor

datatype error =
    UnknownType_value pyval pytype
  | UnknownType_structure
  | OSError oserr
  | TypeError
  | ValueError
  | LookupError
  | IndexError
  | YAMLError
  | OtherError string

section \<open>Scalar coercion: \<^verbatim>\<open>value2str\<close>\<close>

text \<open>\<^verbatim>\<open>str\<close> of an \<^verbatim>\<open>int\<close>: decimal digits, with a minus sign when negative.\<close>

definition digit_char :: "nat \<Rightarrow> char" where
  "digit_char d = ''0123456789'' ! d"

fun str_nat :: "nat \<Rightarrow> string" where
  "str_nat n = (if n < 10 then [digit_char n] else str_nat (n div 10) @ [digit_char (n mod 10)])"

declare str_nat.simps [simp del]

definition str_int :: "int \<Rightarrow> string" where
  "str_int i = (if i < 0 then CHR ''-'' # str_nat (nat (- i)) else str_nat (nat i))"

text \<open>\<^verbatim>\<open>str\<close> of a number; \<^verbatim>\<open>str(True)\<close> is \<^verbatim>\<open>'True'\<close>. Only called on numbers.\<close>

fun str_number :: "pyval \<Rightarrow> string" where
  "str_number (VInt i) = str_int i"
| "str_number (VFloat r) = r"
| "str_number (VBool b) = (if b then ''True'' else ''False'')"
| "str_number _ = []"

text \<open>
  \<^verbatim>\<open>date.isoformat()\<close> is \<^verbatim>\<open>"%04d-%02d-%02d" % (year, month, day)\<close>: each number
  padded with zeros on the left to its width.
\<close>

definition zpad :: "nat \<Rightarrow> string \<Rightarrow> string" where
  "zpad w s = replicate (w - length s) (CHR ''0'') @ s"

definition isoformat :: "nat \<Rightarrow> nat \<Rightarrow> nat \<Rightarrow> string" where
  "isoformat y m d = zpad 4 (str_nat y) @ ''-'' @ zpad 2 (str_nat m) @ ''-'' @ zpad 2 (str_nat d)"

text \<open>
  \<^verbatim>\<open>
  def value2str(self, val):
      if isinstance(val, basestring):
          return val
      elif isinstance(val, numbers.Number):
          return str(val)
      elif type(val) == datetime.date:  # datetimes are subclasses of dates.
          return val.isoformat()
      else:
          raise UnknownType("Don't know what to do with %r of type %s" % (val, type(val)))
  \<close>
  The third test compares the type itself, so it holds for a \<^verbatim>\<open>date\<close> and fails for
  a \<^verbatim>\<open>datetime\<close>.
\<close>

fun value2str :: "pyval \<Rightarrow> error + string" where
  "value2str val =
     (if is_basestring val then (case val of VStr s \<Rightarrow> Inr s | _ \<Rightarrow> Inr [])
      else if is_Number val then Inr (str_number val)
      else if type_of val = TDate then (case val of VDate y m d \<Rightarrow> Inr (isoformat y m d) | _ \<Rightarrow> Inr [])
      else Inl (UnknownType_value val (type_of val)))"

section \<open>The file system and the process\<close>

text \<open>
  The code works on the operating system through \<^verbatim>\<open>os.mkdir\<close>, \<^verbatim>\<open>os.chdir\<close>,
  \<^verbatim>\<open>os.getcwd\<close>, \<^verbatim>\<open>os.path.abspath\<close>, \<^verbatim>\<open>open\<close>, \<^verbatim>\<open>os.chmod\<close>,
  \<^verbatim>\<open>shutil.chown\<close>, \<^verbatim>\<open>tempfile.mkdtemp\<close> and \<^verbatim>\<open>shutil.rmtree\<close>. None of
  them is code of the repository; the model below gives them their POSIX behaviour on a
  tree of directories and text files without symbolic links.

  An absolute path is the list of its components from the root (\<^verbatim>\<open>/\<close> is the empty
  list). The file system maps the absolute paths that exist to what is there.
\<close>

type_synonym path = "string list"

datatype node = Dir | File string

text \<open>Python's \<^verbatim>\<open>name.split('/')\<close>.\<close>

fun split_slash :: "string \<Rightarrow> string list" where
  "split_slash [] = [[]]"
| "split_slash (c # cs) =
     (if c = CHR ''/'' then [] # split_slash cs
      else (case split_slash cs of w # ws \<Rightarrow> (c # w) # ws | [] \<Rightarrow> [[c]]))"

definition isabs :: "string \<Rightarrow> bool" where
  "isabs name = (case name of [] \<Rightarrow> False | c # _ \<Rightarrow> c = CHR ''/'')"

text \<open>
  \<^verbatim>\<open>os.path.abspath(name)\<close> is \<^verbatim>\<open>normpath(join(os.getcwd(), name))\<close>: the components
  of the name are followed from the current directory (from the root for an absolute
  name) by their spelling alone, with empty components and \<^verbatim>\<open>.\<close> dropped and
  \<^verbatim>\<open>..\<close> removing the component before it. Nothing is looked up in the file system.
\<close>

fun normcomps :: "path \<Rightarrow> string list \<Rightarrow> path" where
  "normcomps cur [] = cur"
| "normcomps cur (c # cs) =
     (if c = [] \<or> c = ''.'' then normcomps cur cs
      else if c = ''..'' then normcomps (butlast cur) cs
      else normcomps (cur @ [c]) cs)"

definition abspath :: "path \<Rightarrow> string \<Rightarrow> path" where
  "abspath wd name = normcomps (if isabs name then [] else wd) (split_slash name)"

text \<open>
  The operating system resolves a name component by component: every component is
  looked up in a directory that has to exist. The path it returns is the place the
  name denotes, which may or may not exist yet. The empty name denotes nothing.
\<close>

fun walk :: "(path \<rightharpoonup> node) \<Rightarrow> path \<Rightarrow> string list \<Rightarrow> oserr + path" where
  "walk f cur [] = Inr cur"
| "walk f cur (c # cs) =
     (if c = [] then walk f cur cs
      else (case f cur of
              None \<Rightarrow> Inl FileNotFound
            | Some (File _) \<Rightarrow> Inl NotADirectory
            | Some Dir \<Rightarrow>
                if c = ''.'' then walk f cur cs
                else if c = ''..'' then walk f (butlast cur) cs
                else walk f (cur @ [c]) cs))"

definition resolve :: "(path \<rightharpoonup> node) \<Rightarrow> path \<Rightarrow> string \<Rightarrow> oserr + path" where
  "resolve f wd name =
     (if name = [] then Inl FileNotFound
      else walk f (if isabs name then [] else wd) (split_slash name))"

text \<open>
  What the environment decides and the code cannot see: which metadata changes the
  operating system refuses for lack of privilege, and which user and group names exist.
\<close>

datatype meta = Mode | User | Group

record env =
  denied :: "meta \<Rightarrow> path \<Rightarrow> bool"
  uid_of :: "string \<rightharpoonup> int"
  gid_of :: "string \<rightharpoonup> int"

text \<open>
  The calls an interpreter makes on its back end, in order. \<^verbatim>\<open>FilemakerBase\<close> prints
  one line for each of them (\<^verbatim>\<open>mkdir d\<close>, \<^verbatim>\<open>pushd d\<close>, \<^verbatim>\<open>popd\<close>,
  \<^verbatim>\<open>create file: f c\<close>); the model records them for the overriding classes too, at the
  moment of the call.
\<close>

datatype call = Mkdir pyval | Pushd pyval | Popd | MakeFile pyval pyval

text \<open>
  A line printed by \<^verbatim>\<open>make_item_mode\<close>, \<^verbatim>\<open>make_item_user\<close> or
  \<^verbatim>\<open>make_item_group\<close>: \<^verbatim>\<open>Unable to set the <what> <value> to <filename>.\<close>
\<close>

datatype warning = Unable meta pyval pyval

text \<open>
  The state a run works on: the file system with its metadata and the current working
  directory of the process, the interpreter's \<^verbatim>\<open>self._curdir\<close>, and what has been
  called and printed so far.
\<close>

record state =
  fs :: "path \<rightharpoonup> node"
  modes :: "path \<rightharpoonup> int"
  owners :: "path \<rightharpoonup> int"
  groups :: "path \<rightharpoonup> int"
  cwd :: path
  curdir :: "path list"
  calls :: "call list"
  printed :: "warning list"

text \<open>
  Every operation takes the state and returns the exception it raised, if any, with the
  state it left behind: an exception does not undo what was done before it.
\<close>

type_synonym outcome = "error option \<times> state"

definition ok :: "state \<Rightarrow> outcome" where
  "ok s = (None, s)"

definition raise :: "error \<Rightarrow> state \<Rightarrow> outcome" where
  "raise e s = (Some e, s)"

subsection \<open>System calls\<close>

text \<open>
  \<^verbatim>\<open>os.mkdir(name)\<close>: the name has to be text; the place it denotes must not exist,
  below a directory that does.
\<close>

definition os_mkdir :: "pyval \<Rightarrow> state \<Rightarrow> outcome" where
  "os_mkdir name s =
     (case name of
        VStr n \<Rightarrow>
          (case resolve (fs s) (cwd s) n of
             Inl e \<Rightarrow> raise (OSError e) s
           | Inr p \<Rightarrow>
               if fs s p \<noteq> None then raise (OSError FileExists) s
               else ok (s\<lparr>fs := (fs s)(p \<mapsto> Dir)\<rparr>))
      | _ \<Rightarrow> raise TypeError s)"

text \<open>
  \<^verbatim>\<open>os.chdir\<close> is only ever called with an absolute path: the result of
  \<^verbatim>\<open>abspath\<close>, of \<^verbatim>\<open>realpath\<close> or of an earlier \<^verbatim>\<open>os.getcwd()\<close>.
\<close>

definition os_chdir :: "path \<Rightarrow> state \<Rightarrow> outcome" where
  "os_chdir p s =
     (case fs s p of
        Some Dir \<Rightarrow> ok (s\<lparr>cwd := p\<rparr>)
      | Some (File _) \<Rightarrow> raise (OSError NotADirectory) s
      | None \<Rightarrow> raise (OSError FileNotFound) s)"

text \<open>
  \<^verbatim>\<open>
  with open(filename, 'w') as fp:
      fp.write(content)
  \<close>
  \<^verbatim>\<open>open\<close> creates the file, or empties the one that is there; a directory, or a name
  with a slash at its end, cannot be opened for writing. An integer as the name would
  denote a file descriptor, which the model does not have. \<^verbatim>\<open>fp.write\<close> raises
  \<^verbatim>\<open>TypeError\<close> on anything but text, after the file has been created.
\<close>

definition os_write_file :: "pyval \<Rightarrow> pyval \<Rightarrow> state \<Rightarrow> outcome" where
  "os_write_file filename content s =
     (case filename of
        VStr n \<Rightarrow>
          (case resolve (fs s) (cwd s) n of
             Inl e \<Rightarrow> raise (OSError e) s
           | Inr p \<Rightarrow>
               if fs s p = Some Dir \<or> last n = CHR ''/'' then raise (OSError IsADirectory) s
               else (case content of
                       VStr c \<Rightarrow> ok (s\<lparr>fs := (fs s)(p \<mapsto> File c)\<rparr>)
                     | _ \<Rightarrow> raise TypeError (s\<lparr>fs := (fs s)(p \<mapsto> File [])\<rparr>)))
      | VInt _ \<Rightarrow> raise (OSError BadFileDescriptor) s
      | VBool _ \<Rightarrow> raise (OSError BadFileDescriptor) s
      | _ \<Rightarrow> raise TypeError s)"

subsection \<open>The back end of \<^verbatim>\<open>Filemaker\<close> and \<^verbatim>\<open>FilemakerExplicit\<close>\<close>

text \<open>
  Both classes override \<^verbatim>\<open>mkdir\<close>, \<^verbatim>\<open>pushd\<close>, \<^verbatim>\<open>popd\<close> and \<^verbatim>\<open>make_file\<close> with
  the same four bodies:
  \<^verbatim>\<open>
  def mkdir(self, dirname):
      os.mkdir(dirname)

  def pushd(self, dirname):
      dirname = os.path.abspath(dirname)
      self._curdir.append(os.getcwd())
      os.chdir(dirname)

  def popd(self):
      os.chdir(self._curdir.pop())

  def make_file(self, filename, content):
      with open(filename, 'w') as fp:
          fp.write(content)
  \<close>
  \<^verbatim>\<open>abspath\<close> raises \<^verbatim>\<open>TypeError\<close> on a name that is not text; \<^verbatim>\<open>pop\<close> on an
  empty list raises \<^verbatim>\<open>IndexError\<close>.
\<close>

definition called :: "call \<Rightarrow> state \<Rightarrow> state" where
  "called c s = s\<lparr>calls := calls s @ [c]\<rparr>"

definition mkdir :: "pyval \<Rightarrow> state \<Rightarrow> outcome" where
  "mkdir dirname s = os_mkdir dirname (called (Mkdir dirname) s)"

definition pushd :: "pyval \<Rightarrow> state \<Rightarrow> outcome" where
  "pushd dirname s0 =
     (let s = called (Pushd dirname) s0 in
      case dirname of
        VStr n \<Rightarrow>
          (let d = abspath (cwd s) n;
               s1 = s\<lparr>curdir := curdir s @ [cwd s]\<rparr>
           in os_chdir d s1)
      | _ \<Rightarrow> raise TypeError s)"

definition popd :: "state \<Rightarrow> outcome" where
  "popd s0 =
     (let s = called Popd s0 in
      if curdir s = [] then raise IndexError s
      else os_chdir (last (curdir s)) (s\<lparr>curdir := butlast (curdir s)\<rparr>))"

definition make_file :: "pyval \<Rightarrow> pyval \<Rightarrow> state \<Rightarrow> outcome" where
  "make_file filename content s = os_write_file filename content (called (MakeFile filename content) s)"

section \<open>The implicit dialect: \<^verbatim>\<open>FilemakerBase\<close> with the back end of \<^verbatim>\<open>Filemaker\<close>\<close>

text \<open>
  \<^verbatim>\<open>
  def _make_item(self, item):
      if isinstance(item, dict):
          return self.make_dict_item(item)
      elif isinstance(item, list):
          return self.make_list_item(item)
      else:
          return self.make_file(self.value2str(item), "")

  def make_list_item(self, lst):
      for item in lst:
          self._make_item(item)

  def make_dict_item(self, dct):
      for k, v in dct.items():
          k = self.value2str(k)
          if isinstance(v, (list, dict, NoneType)):
              self.mkdir(k)
              self.pushd(k)
              if v is not None:
                  self._make_item(v)
              self.popd()
          else:
              self.make_file(filename=k, content=self.value2str(v))
  \<close>
  (\<^verbatim>\<open>_make_item\<close> is \<open>make_item\<close> here: a name cannot start with an underscore.)
  The two loops are the recursions over the list and over the pairs of the dict.
\<close>

fun is_list_dict_None :: "pyval \<Rightarrow> bool" where
  "is_list_dict_None (VList _) = True"
| "is_list_dict_None (VDict _) = True"
| "is_list_dict_None VNone = True"
| "is_list_dict_None _ = False"

fun make_item :: "pyval \<Rightarrow> state \<Rightarrow> outcome"
  and make_list_item :: "pyval list \<Rightarrow> state \<Rightarrow> outcome"
  and make_dict_item :: "(pyval \<times> pyval) list \<Rightarrow> state \<Rightarrow> outcome"
  and make_entry :: "string \<Rightarrow> pyval \<Rightarrow> state \<Rightarrow> outcome"
where
  "make_item (VDict dct) s = make_dict_item dct s"
| "make_item (VList lst) s = make_list_item lst s"
| "make_item item s =
     (case value2str item of
        Inl e \<Rightarrow> raise e s
      | Inr name \<Rightarrow> make_file (VStr name) (VStr []) s)"
| "make_list_item [] s = ok s"
| "make_list_item (item # lst) s =
     (case make_item item s of
        (None, s1) \<Rightarrow> make_list_item lst s1
      | (Some e, s1) \<Rightarrow> (Some e, s1))"
| "make_dict_item [] s = ok s"
| "make_dict_item ((k, v) # dct) s =
     (case value2str k of
        Inl e \<Rightarrow> raise e s
      | Inr k' \<Rightarrow>
          (case make_entry k' v s of
             (None, s1) \<Rightarrow> make_dict_item dct s1
           | (Some e, s1) \<Rightarrow> (Some e, s1)))"
| "make_entry k v s =
     (if is_list_dict_None v then
        (case mkdir (VStr k) s of
           (Some e, s1) \<Rightarrow> (Some e, s1)
         | (None, s1) \<Rightarrow>
             (case pushd (VStr k) s1 of
                (Some e, s2) \<Rightarrow> (Some e, s2)
              | (None, s2) \<Rightarrow>
                  (case (if v \<noteq> VNone then make_item v s2 else ok s2) of
                     (Some e, s3) \<Rightarrow> (Some e, s3)
                   | (None, s3) \<Rightarrow> popd s3)))
      else
        (case value2str v of
           Inl e \<Rightarrow> raise e s
         | Inr c \<Rightarrow> make_file (VStr k) (VStr c) s))"

text \<open>
  \<^verbatim>\<open>
  class FilemakerBase(object):
      def __init__(self, root, fdef):
          yaml = YAML(typ='safe')
          self.fdef = yaml.load(fdef)
          self.pushd(root)
          self._make_item(self.fdef)

  class Filemaker(FilemakerBase):
      def __init__(self, root, fdef):
          self._curdir = []
          super(Filemaker, self).__init__(root, fdef)
  \<close>
  The YAML parser is not code of the repository: \<open>load\<close> is what it answers for a
  document, a value or an exception.
\<close>

definition Filemaker :: "(string \<Rightarrow> error + pyval) \<Rightarrow> string \<Rightarrow> string \<Rightarrow> state \<Rightarrow> outcome" where
  "Filemaker load root fdef s0 =
     (let s = s0\<lparr>curdir := []\<rparr> in
      case load fdef of
        Inl e \<Rightarrow> raise e s
      | Inr v \<Rightarrow>
          (case pushd (VStr root) s of
             (Some e, s1) \<Rightarrow> (Some e, s1)
           | (None, s1) \<Rightarrow> make_item v s1))"

section \<open>The explicit dialect: \<^verbatim>\<open>FilemakerExplicit\<close>\<close>

subsection \<open>Metadata\<close>

text \<open>
  \<^verbatim>\<open>os.chmod(path, mode)\<close> and \<^verbatim>\<open>os.chown(path, uid, gid)\<close> take a path that is
  text (an integer would be a file descriptor) and integers (a \<^verbatim>\<open>bool\<close> is one);
  the path has to exist; the operating system then allows the change or not.
\<close>

fun as_int :: "pyval \<Rightarrow> int option" where
  "as_int (VInt i) = Some i"
| "as_int (VBool b) = Some (if b then 1 else 0)"
| "as_int _ = None"

definition os_setmeta :: "env \<Rightarrow> meta \<Rightarrow> pyval \<Rightarrow> pyval \<Rightarrow> state \<Rightarrow> outcome" where
  "os_setmeta ev what filename val s =
     (case as_int val of
        None \<Rightarrow> raise TypeError s
      | Some i \<Rightarrow>
          (case filename of
             VStr n \<Rightarrow>
               (case resolve (fs s) (cwd s) n of
                  Inl e \<Rightarrow> raise (OSError e) s
                | Inr p \<Rightarrow>
                    if fs s p = None then raise (OSError FileNotFound) s
                    else if denied ev what p then raise (OSError PermissionDenied) s
                    else ok (case what of
                               Mode \<Rightarrow> s\<lparr>modes := (modes s)(p \<mapsto> i)\<rparr>
                             | User \<Rightarrow> s\<lparr>owners := (owners s)(p \<mapsto> i)\<rparr>
                             | Group \<Rightarrow> s\<lparr>groups := (groups s)(p \<mapsto> i)\<rparr>))
           | VInt _ \<Rightarrow> raise (OSError BadFileDescriptor) s
           | VBool _ \<Rightarrow> raise (OSError BadFileDescriptor) s
           | _ \<Rightarrow> raise TypeError s))"

text \<open>
  \<^verbatim>\<open>shutil.chown(path, user=user)\<close> and \<^verbatim>\<open>shutil.chown(path, group=group)\<close>, with
  the other argument left at \<^verbatim>\<open>None\<close>: \<^verbatim>\<open>ValueError\<close> when the one given is
  \<^verbatim>\<open>None\<close> too; a name is looked up (\<^verbatim>\<open>LookupError\<close> when there is none such); the
  result goes to \<^verbatim>\<open>os.chown\<close>.
\<close>

definition shutil_chown :: "env \<Rightarrow> meta \<Rightarrow> pyval \<Rightarrow> pyval \<Rightarrow> state \<Rightarrow> outcome" where
  "shutil_chown ev what path val s =
     (case val of
        VNone \<Rightarrow> raise ValueError s
      | VStr name \<Rightarrow>
          (case (if what = User then uid_of ev name else gid_of ev name) of
             None \<Rightarrow> raise LookupError s
           | Some i \<Rightarrow> os_setmeta ev what path (VInt i) s)
      | _ \<Rightarrow> os_setmeta ev what path val s)"

text \<open>
  \<^verbatim>\<open>
  def make_item_mode(self, filename, mode):
      try:
         os.chmod(filename, mode)
      except PermissionError:
          print(f"Unable to set the mode {mode} to {filename}.")

  def make_item_user(self, filename, user):
      try:
          shutil.chown(filename, user=user)
      except PermissionError:
          print(f"Unable to set the user {user} to {filename}.")

  def make_item_group(self, filename, group):
      try:
          shutil.chown(filename, group=group)
      except PermissionError:
          print(f"Unable to set the group {group} to {filename}.")
  \<close>
\<close>

definition except_PermissionError :: "meta \<Rightarrow> pyval \<Rightarrow> pyval \<Rightarrow> outcome \<Rightarrow> outcome" where
  "except_PermissionError what filename val r =
     (case r of
        (Some (OSError PermissionDenied), s) \<Rightarrow>
          ok (s\<lparr>printed := printed s @ [Unable what val filename]\<rparr>)
      | _ \<Rightarrow> r)"

definition make_item_mode :: "env \<Rightarrow> pyval \<Rightarrow> pyval \<Rightarrow> state \<Rightarrow> outcome" where
  "make_item_mode ev filename mode s =
     except_PermissionError Mode filename mode (os_setmeta ev Mode filename mode s)"

definition make_item_user :: "env \<Rightarrow> pyval \<Rightarrow> pyval \<Rightarrow> state \<Rightarrow> outcome" where
  "make_item_user ev filename usr s =
     except_PermissionError User filename usr (shutil_chown ev User filename usr s)"

definition make_item_group :: "env \<Rightarrow> pyval \<Rightarrow> pyval \<Rightarrow> state \<Rightarrow> outcome" where
  "make_item_group ev filename grp s =
     except_PermissionError Group filename grp (shutil_chown ev Group filename grp s)"

text \<open>
  \<^verbatim>\<open>
  self.keywords = {
      "mode": self.make_item_mode,
      "user": self.make_item_user,
      "group": self.make_item_group,
  }
  \<close>
\<close>

definition self_keywords :: "env \<Rightarrow> pyval \<rightharpoonup> (pyval \<Rightarrow> pyval \<Rightarrow> state \<Rightarrow> outcome)" where
  "self_keywords ev key =
     (if key = VStr ''mode'' then Some (make_item_mode ev)
      else if key = VStr ''user'' then Some (make_item_user ev)
      else if key = VStr ''group'' then Some (make_item_group ev)
      else None)"

subsection \<open>The walk\<close>

text \<open>
  \<^verbatim>\<open>
  def make_dict_item(self, dct):
      if 'directory' in dct or 'file' in dct:
          current = None
          if 'directory' in dct:
              current = dct['directory']
              self.mkdir(dct['directory'])
          elif 'file' in dct:
              current = dct['file']
              content = ""
              if 'content' in dct:
                  content = dct['content']
              self.make_file(dct['file'], content)
          for key in dct:
              if key == 'children':
                  self.pushd(current)
                  self._make_item(dct['children'])
                  self.popd()
              elif key in self.keywords:
                  self.keywords[key](current, dct[key])
      else:
          raise UnknownType(...)
  \<close>
  \<^verbatim>\<open>_make_item\<close> and \<^verbatim>\<open>make_list_item\<close> are inherited from \<^verbatim>\<open>FilemakerBase\<close>;
  they call this \<^verbatim>\<open>make_dict_item\<close>. \<open>x_for_key\<close> is the \<^verbatim>\<open>for key in dct\<close>
  loop, over the pairs that are left.
\<close>

fun x_make_item :: "env \<Rightarrow> pyval \<Rightarrow> state \<Rightarrow> outcome"
  and x_make_list_item :: "env \<Rightarrow> pyval list \<Rightarrow> state \<Rightarrow> outcome"
  and x_for_key :: "env \<Rightarrow> pyval \<Rightarrow> (pyval \<times> pyval) list \<Rightarrow> state \<Rightarrow> outcome"
where
  "x_make_item ev (VDict dct) s =
     (if map_of dct (VStr ''directory'') \<noteq> None \<or> map_of dct (VStr ''file'') \<noteq> None then
        (case map_of dct (VStr ''directory'') of
           Some d \<Rightarrow>
             (case mkdir d s of
                (Some e, s1) \<Rightarrow> (Some e, s1)
              | (None, s1) \<Rightarrow> x_for_key ev d dct s1)
         | None \<Rightarrow>
             (case map_of dct (VStr ''file'') of
                Some f \<Rightarrow>
                  (case make_file f (case map_of dct (VStr ''content'') of
                                       Some c \<Rightarrow> c | None \<Rightarrow> VStr []) s of
                     (Some e, s1) \<Rightarrow> (Some e, s1)
                   | (None, s1) \<Rightarrow> x_for_key ev f dct s1)
              | None \<Rightarrow> x_for_key ev VNone dct s))
      else raise UnknownType_structure s)"
| "x_make_item ev (VList lst) s = x_make_list_item ev lst s"
| "x_make_item ev item s =
     (case value2str item of
        Inl e \<Rightarrow> raise e s
      | Inr name \<Rightarrow> make_file (VStr name) (VStr []) s)"
| "x_make_list_item ev [] s = ok s"
| "x_make_list_item ev (item # lst) s =
     (case x_make_item ev item s of
        (None, s1) \<Rightarrow> x_make_list_item ev lst s1
      | (Some e, s1) \<Rightarrow> (Some e, s1))"
| "x_for_key ev current [] s = ok s"
| "x_for_key ev current ((key, v) # rest) s =
     (case (if key = VStr ''children'' then
              (case pushd current s of
                 (Some e, s1) \<Rightarrow> (Some e, s1)
               | (None, s1) \<Rightarrow>
                   (case x_make_item ev v s1 of
                      (Some e, s2) \<Rightarrow> (Some e, s2)
                    | (None, s2) \<Rightarrow> popd s2))
            else (case self_keywords ev key of
                    Some handler \<Rightarrow> handler current v s
                  | None \<Rightarrow> ok s)) of
        (Some e, s') \<Rightarrow> (Some e, s')
      | (None, s') \<Rightarrow> x_for_key ev current rest s')"

text \<open>\<^verbatim>\<open>FilemakerExplicit.make_dict_item\<close>, under its own name.\<close>

definition x_make_dict_item :: "env \<Rightarrow> (pyval \<times> pyval) list \<Rightarrow> state \<Rightarrow> outcome" where
  "x_make_dict_item ev dct s = x_make_item ev (VDict dct) s"

text \<open>
  \<^verbatim>\<open>
  class FilemakerExplicit(FilemakerBase):
      def __init__(self, root, fdef):
          self._curdir = []
          self.keywords = {...}
          super(FilemakerExplicit, self).__init__(root, fdef)
  \<close>
\<close>

definition FilemakerExplicit ::
  "env \<Rightarrow> (string \<Rightarrow> error + pyval) \<Rightarrow> string \<Rightarrow> string \<Rightarrow> state \<Rightarrow> outcome" where
  "FilemakerExplicit ev load root fdef s0 =
     (let s = s0\<lparr>curdir := []\<rparr> in
      case load fdef of
        Inl e \<Rightarrow> raise e s
      | Inr v \<Rightarrow>
          (case pushd (VStr root) s of
             (Some e, s1) \<Rightarrow> (Some e, s1)
           | (None, s1) \<Rightarrow> x_make_item ev v s1))"

section \<open>The scoped temporary directory: \<^verbatim>\<open>create_files\<close>\<close>







section \<open>Notions used in the properties\<close>

text \<open>How often \<^verbatim>\<open>pushd\<close> and \<^verbatim>\<open>popd\<close> occur among calls.\<close>

fun is_Pushd :: "call \<Rightarrow> bool" where
  "is_Pushd (Pushd _) = True"
| "is_Pushd _ = False"

fun is_Popd :: "call \<Rightarrow> bool" where
  "is_Popd Popd = True"
| "is_Popd _ = False"

definition pushes :: "call list \<Rightarrow> nat" where
  "pushes cs = length (filter is_Pushd cs)"

definition pops :: "call list \<Rightarrow> nat" where
  "pops cs = length (filter is_Popd cs)"

text \<open>
  A step from \<open>s\<close> to \<open>s'\<close> is balanced when it ends in the directory it started in,
  with \<^verbatim>\<open>self._curdir\<close> as it was, having called \<^verbatim>\<open>pushd\<close> as often as
  \<^verbatim>\<open>popd\<close>.
\<close>

definition balanced :: "state \<Rightarrow> state \<Rightarrow> bool" where
  "balanced s s' =
     (cwd s' = cwd s \<and> curdir s' = curdir s
      \<and> (\<exists>made. calls s' = calls s @ made \<and> pushes made = pops made))"

text \<open>
  Concrete inputs for the examples: a machine that has the directories \<^verbatim>\<open>/\<close> and
  \<^verbatim>\<open>/work\<close>, with the process in \<^verbatim>\<open>/work\<close>; a parser that answers a given value
  for any document; an operating system that refuses every change of metadata and
  knows no user or group name.
\<close>

definition demo_state :: state where
  "demo_state =
     \<lparr>fs = [[] \<mapsto> Dir, [''work''] \<mapsto> Dir], modes = Map.empty, owners = Map.empty,
      groups = Map.empty, cwd = [''work''], curdir = [], calls = [], printed = []\<rparr>"

definition answering :: "pyval \<Rightarrow> string \<Rightarrow> error + pyval" where
  "answering v doc = Inr v"

definition refuse_all :: env where
  "refuse_all = \<lparr>denied = (\<lambda>what p. True), uid_of = Map.empty, gid_of = Map.empty\<rparr>"


section \<open>Properties of the scalar coercion\<close>

lemma str_nat_nonempty: "str_nat n \<noteq> []"
  by (induction n rule: str_nat.induct) (subst str_nat.simps, simp)









text \<open>
  Claim C6, as the code has it. A value whose type is none of \<^verbatim>\<open>str\<close>,
  \<^verbatim>\<open>int\<close>, \<^verbatim>\<open>float\<close>, \<^verbatim>\<open>bool\<close> and \<^verbatim>\<open>date\<close> makes \<^verbatim>\<open>value2str\<close> raise
  \<^verbatim>\<open>UnknownType\<close> with the value and its type; so does \<^verbatim>\<open>make_dict_item\<close> when
  the value is a key (a name) and, unless it is a list, a dict or \<^verbatim>\<open>None\<close> (which
  make a directory), when it is the value under a key (a content). A boolean is a
  \<^verbatim>\<open>numbers.Number\<close> and is coerced to \<^verbatim>\<open>True\<close> or \<^verbatim>\<open>False\<close>.
\<close>

theorem value2str_unknown:
  "(type_of val \<notin> {TStr, TInt, TFloat, TBool, TDate} \<longrightarrow>
      value2str val = Inl (UnknownType_value val (type_of val))
      \<and> make_dict_item ((val, v) # dct) s = (Some (UnknownType_value val (type_of val)), s)
      \<and> (type_of val \<notin> {TList, TDict, TNoneType} \<longrightarrow>
           make_dict_item ((VStr k, val) # dct) s = (Some (UnknownType_value val (type_of val)), s)))
   \<and> value2str (VBool b) = Inr (if b then ''True'' else ''False'')"
  by (cases val) (simp_all add: raise_def)

theorem value2str_unknown_witness:
  "type_of (VDateTime 2017 4 11 11 13 42) \<notin> {TStr, TInt, TFloat, TBool, TDate}
   \<and> type_of (VDateTime 2017 4 11 11 13 42) \<notin> {TList, TDict, TNoneType}
   \<and> value2str (VDateTime 2017 4 11 11 13 42) =
       Inl (UnknownType_value (VDateTime 2017 4 11 11 13 42) TDateTime)
   \<and> make_dict_item [(VDateTime 2017 4 11 11 13 42, VStr ''x'')] demo_state =
       (Some (UnknownType_value (VDateTime 2017 4 11 11 13 42) TDateTime), demo_state)
   \<and> make_dict_item [(VStr ''k'', VDateTime 2017 4 11 11 13 42)] demo_state =
       (Some (UnknownType_value (VDateTime 2017 4 11 11 13 42) TDateTime), demo_state)
   \<and> value2str (VBool False) = Inr ''False''"
  using value2str_unknown [of "VDateTime 2017 4 11 11 13 42" "VStr ''x''" "[]" demo_state "''k''" False]
  by simp

text \<open>
  Claim C6 as the specification words it fails: a boolean is not text, not an
  \<^verbatim>\<open>int\<close> or \<^verbatim>\<open>float\<close> and not a date, and yet it is coerced, not rejected.
\<close>

theorem value2str_bool_counterexample:
  "type_of (VBool True) \<notin> {TStr, TInt, TFloat, TDate}
   \<and> value2str (VBool True) = Inr ''True''
   \<and> make_dict_item [(VBool True, VBool False)] demo_state =
       make_file (VStr ''True'') (VStr ''False'') demo_state"
  by (simp add: raise_def ok_def split: prod.splits option.splits)

section \<open>Entering and leaving directories\<close>

lemma balanced_refl: "balanced s s"
  by (simp add: balanced_def pushes_def pops_def)

lemma balanced_trans: "balanced s s1 \<Longrightarrow> balanced s1 s2 \<Longrightarrow> balanced s s2"
  by (auto simp: balanced_def pushes_def pops_def)

lemma os_chdir_ok: "os_chdir p s = (None, s') \<Longrightarrow> s' = s\<lparr>cwd := p\<rparr> \<and> fs s p = Some Dir"
  by (auto simp: os_chdir_def ok_def raise_def split: option.splits node.splits)

lemma mkdir_frame:
  "mkdir n s = (r, s') \<Longrightarrow> cwd s' = cwd s \<and> curdir s' = curdir s \<and> calls s' = calls s @ [Mkdir n]"
  by (auto simp: mkdir_def os_mkdir_def called_def ok_def raise_def
      split: pyval.splits sum.splits if_splits)

lemma make_file_frame:
  "make_file n c s = (r, s') \<Longrightarrow>
     cwd s' = cwd s \<and> curdir s' = curdir s \<and> calls s' = calls s @ [MakeFile n c]"
  by (auto simp: make_file_def os_write_file_def called_def ok_def raise_def
      split: pyval.splits sum.splits if_splits)

lemma pushd_ok:
  "pushd n s = (None, s') \<Longrightarrow>
     curdir s' = curdir s @ [cwd s] \<and> calls s' = calls s @ [Pushd n] \<and> fs s' = fs s"
  by (auto simp: pushd_def Let_def called_def raise_def dest!: os_chdir_ok split: pyval.splits)

lemma popd_ok:
  "popd s = (None, s') \<Longrightarrow>
     curdir s \<noteq> [] \<and> cwd s' = last (curdir s) \<and> curdir s' = butlast (curdir s)
     \<and> calls s' = calls s @ [Popd] \<and> fs s' = fs s"
  by (auto simp: popd_def Let_def called_def raise_def dest!: os_chdir_ok split: if_splits)

lemma balanced_mkdir: "mkdir n s = (None, s') \<Longrightarrow> balanced s s'"
  by (auto simp: balanced_def pushes_def pops_def dest!: mkdir_frame)

lemma balanced_make_file: "make_file n c s = (None, s') \<Longrightarrow> balanced s s'"
  by (auto simp: balanced_def pushes_def pops_def dest!: make_file_frame)

lemma balanced_enter_leave:
  assumes "pushd n s = (None, s1)" and "balanced s1 s2" and "popd s2 = (None, s3)"
  shows "balanced s s3"
proof -
  from assms(2) obtain made where m: "cwd s2 = cwd s1" "curdir s2 = curdir s1"
      "calls s2 = calls s1 @ made" "pushes made = pops made"
    by (auto simp: balanced_def)
  from pushd_ok[OF assms(1)] popd_ok[OF assms(3)] m
  have "cwd s3 = cwd s" "curdir s3 = curdir s" "calls s3 = calls s @ (Pushd n # made @ [Popd])"
    by simp_all
  moreover have "pushes (Pushd n # made @ [Popd]) = pops (Pushd n # made @ [Popd])"
    using m(4) by (simp add: pushes_def pops_def)
  ultimately show ?thesis unfolding balanced_def by blast
qed

lemma make_item_balanced:
  "(\<forall>s'. make_item v s = (None, s') \<longrightarrow> balanced s s')"
  "(\<forall>s'. make_list_item lst s = (None, s') \<longrightarrow> balanced s s')"
  "(\<forall>s'. make_dict_item dct s = (None, s') \<longrightarrow> balanced s s')"
  "(\<forall>s'. make_entry k v s = (None, s') \<longrightarrow> balanced s s')"
proof (induction v s and lst s and dct s and k v s
    rule: make_item_make_list_item_make_dict_item_make_entry.induct)
  case (1 dct s)
  then show ?case by simp
next
  case (2 lst s)
  then show ?case by simp
next
  case (4 s)
  then show ?case by (simp add: ok_def balanced_refl)
next
  case (5 item lst s)
  then show ?case
    by (auto split: prod.splits option.splits intro: balanced_trans)
next
  case (6 s)
  then show ?case by (simp add: ok_def balanced_refl)
next
  case (7 k v dct s)
  then show ?case
    by (auto simp: raise_def simp del: value2str.simps make_entry.simps
        split: sum.splits prod.splits option.splits intro: balanced_trans)
next
  case (8 k v s)
  show ?case
  proof (intro allI impI)
    fix s' assume r: "make_entry k v s = (None, s')"
    show "balanced s s'"
    proof (cases "is_list_dict_None v")
      case True
      from r True obtain s1 s2 s3 where
        a: "mkdir (VStr k) s = (None, s1)" and b: "pushd (VStr k) s1 = (None, s2)"
        and c: "(if v \<noteq> VNone then make_item v s2 else ok s2) = (None, s3)"
        and d: "popd s3 = (None, s')"
        by (auto split: prod.splits option.splits)
      have "balanced s2 s3"
      proof (cases "v = VNone")
        case True
        then show ?thesis using c by (simp add: ok_def balanced_refl)
      next
        case False
        then show ?thesis using c 8[OF True a[symmetric] _ b[symmetric]] by simp
      qed
      from balanced_trans[OF balanced_mkdir[OF a] balanced_enter_leave[OF b this d]]
      show ?thesis .
    next
      case False
      then show ?thesis using r
        by (auto simp: raise_def simp del: value2str.simps split: sum.splits dest: balanced_make_file)
    qed
  qed
qed (auto simp: raise_def dest: balanced_make_file)

lemma os_setmeta_frame:
  "os_setmeta ev what n v s = (r, s') \<Longrightarrow>
     fs s' = fs s \<and> cwd s' = cwd s \<and> curdir s' = curdir s \<and> calls s' = calls s"
  by (auto simp: os_setmeta_def ok_def raise_def
      split: option.splits pyval.splits sum.splits if_splits meta.splits)

lemma shutil_chown_frame:
  "shutil_chown ev what n v s = (r, s') \<Longrightarrow>
     fs s' = fs s \<and> cwd s' = cwd s \<and> curdir s' = curdir s \<and> calls s' = calls s"
  unfolding shutil_chown_def
  by (cases v) (auto simp: raise_def split: option.splits dest: os_setmeta_frame)

lemma except_PermissionError_frame:
  "except_PermissionError what n v (r0, s0) = (r, s') \<Longrightarrow>
     fs s' = fs s0 \<and> cwd s' = cwd s0 \<and> curdir s' = curdir s0 \<and> calls s' = calls s0"
  by (auto simp: except_PermissionError_def ok_def split: option.splits error.splits oserr.splits)

lemma handler_frame:
  assumes "self_keywords ev key = Some h" and "h n v s = (r, s')"
  shows "fs s' = fs s \<and> cwd s' = cwd s \<and> curdir s' = curdir s \<and> calls s' = calls s"
proof -
  consider "h = make_item_mode ev" | "h = make_item_user ev" | "h = make_item_group ev"
    using assms(1) by (auto simp: self_keywords_def split: if_splits)
  then show ?thesis
  proof cases
    case 1
    obtain r0 s0 where o: "os_setmeta ev Mode n v s = (r0, s0)" by force
    with assms(2) 1 have "except_PermissionError Mode n v (r0, s0) = (r, s')"
      by (simp add: make_item_mode_def)
    from except_PermissionError_frame[OF this] os_setmeta_frame[OF o] show ?thesis by simp
  next
    case 2
    obtain r0 s0 where o: "shutil_chown ev User n v s = (r0, s0)" by force
    with assms(2) 2 have "except_PermissionError User n v (r0, s0) = (r, s')"
      by (simp add: make_item_user_def)
    from except_PermissionError_frame[OF this] shutil_chown_frame[OF o] show ?thesis by simp
  next
    case 3
    obtain r0 s0 where o: "shutil_chown ev Group n v s = (r0, s0)" by force
    with assms(2) 3 have "except_PermissionError Group n v (r0, s0) = (r, s')"
      by (simp add: make_item_group_def)
    from except_PermissionError_frame[OF this] shutil_chown_frame[OF o] show ?thesis by simp
  qed
qed

lemma balanced_handler:
  "self_keywords ev key = Some h \<Longrightarrow> h n v s = (r, s') \<Longrightarrow> balanced s s'"
  by (drule (1) handler_frame) (simp add: balanced_def pushes_def pops_def)

lemma x_make_item_balanced:
  "(\<forall>s'. x_make_item ev v s = (None, s') \<longrightarrow> balanced s s')"
  "(\<forall>s'. x_make_list_item ev lst s = (None, s') \<longrightarrow> balanced s s')"
  "(\<forall>s'. x_for_key ev cur dct s = (None, s') \<longrightarrow> balanced s s')"
proof (induction ev v s and ev lst s and ev cur dct s
    rule: x_make_item_x_make_list_item_x_for_key.induct)
  case (1 ev dct s)
  show ?case
  proof (intro allI impI)
    fix s' assume r: "x_make_item ev (VDict dct) s = (None, s')"
    show "balanced s s'"
    proof (cases "map_of dct (VStr ''directory'')")
      case (Some d)
      with r obtain s1 where a: "mkdir d s = (None, s1)" and b: "x_for_key ev d dct s1 = (None, s')"
        by (auto split: prod.splits option.splits)
      have "balanced s1 s'" using 1 Some a[symmetric] b by fastforce
      with balanced_mkdir[OF a] show ?thesis by (rule balanced_trans)
    next
      case None
      show ?thesis
      proof (cases "map_of dct (VStr ''file'')")
        case nf: None
        with None r show ?thesis by (simp add: raise_def)
      next
        case (Some f)
        let ?c = "case map_of dct (VStr ''content'') of Some c \<Rightarrow> c | None \<Rightarrow> VStr []"
        from r None Some obtain s1 where a: "make_file f ?c s = (None, s1)"
          and b: "x_for_key ev f dct s1 = (None, s')"
          by (auto split: prod.splits option.splits)
        have "balanced s1 s'" using 1 None Some a[symmetric] b by fastforce
        with balanced_make_file[OF a] show ?thesis by (rule balanced_trans)
      qed
    qed
  qed
next
  case (2 ev lst s)
  then show ?case by simp
next
  case (4 ev s)
  then show ?case by (simp add: ok_def balanced_refl)
next
  case (5 ev item lst s)
  then show ?case by (auto split: prod.splits option.splits intro: balanced_trans)
next
  case (6 ev cur s)
  then show ?case by (simp add: ok_def balanced_refl)
next
  case (7 ev cur key v rest s)
  show ?case
  proof (intro allI impI)
    fix s' assume r: "x_for_key ev cur ((key, v) # rest) s = (None, s')"
    let ?step = "(if key = VStr ''children'' then
              (case pushd cur s of
                 (Some e, s1) \<Rightarrow> (Some e, s1)
               | (None, s1) \<Rightarrow>
                   (case x_make_item ev v s1 of
                      (Some e, s2) \<Rightarrow> (Some e, s2)
                    | (None, s2) \<Rightarrow> popd s2))
            else (case self_keywords ev key of
                    Some handler \<Rightarrow> handler cur v s
                  | None \<Rightarrow> ok s))"
    from r obtain s1 where st: "?step = (None, s1)" and rest: "x_for_key ev cur rest s1 = (None, s')"
      by (auto split: prod.splits option.splits simp del: split_paired_All)
    have "balanced s s1"
    proof (cases "key = VStr ''children''")
      case True
      with st obtain t1 t2 where a: "pushd cur s = (None, t1)"
        and b: "x_make_item ev v t1 = (None, t2)" and c: "popd t2 = (None, s1)"
        by (auto split: prod.splits option.splits)
      from 7 True a[symmetric] b have "balanced t1 t2" by fastforce
      from balanced_enter_leave[OF a this c] show ?thesis .
    next
      case False
      with st show ?thesis
        by (auto simp: ok_def balanced_refl split: option.splits dest: balanced_handler)
    qed
    moreover have "balanced s1 s'" using 7(2)[OF st[symmetric]] rest by fastforce
    ultimately show "balanced s s'" by (rule balanced_trans)
  qed
qed (auto simp: raise_def dest: balanced_make_file)

lemma demo_run:
  "Filemaker (answering (VDict [(VStr ''d'', VNone)])) ''/work'' ''d:'' demo_state =
   (None, demo_state\<lparr>fs := (fs demo_state)([''work'', ''d''] \<mapsto> Dir),
      curdir := [[''work'']],
      calls := [Pushd (VStr ''/work''), Mkdir (VStr ''d''), Pushd (VStr ''d''), Popd]\<rparr>)"
  by (simp add: Filemaker_def answering_def demo_state_def pushd_def popd_def mkdir_def os_mkdir_def
      os_chdir_def called_def ok_def raise_def abspath_def isabs_def resolve_def Let_def)

text \<open>
  Claim C2, as the code has it. \<^verbatim>\<open>__init__\<close> calls \<^verbatim>\<open>pushd(root)\<close> and never the
  \<^verbatim>\<open>popd\<close> that would match it; the walk below it is balanced. So whenever the
  construction of a \<^verbatim>\<open>Filemaker\<close> or a \<^verbatim>\<open>FilemakerExplicit\<close> completes without
  raising, it has called \<^verbatim>\<open>pushd\<close> exactly once more than \<^verbatim>\<open>popd\<close>, and
  \<^verbatim>\<open>self._curdir\<close> holds exactly one entry: the directory the process was in before.
\<close>

theorem pushd_popd_balance:
  "(Filemaker load root fdef s = (None, s') \<or> FilemakerExplicit ev load root fdef s = (None, s')
     \<longrightarrow> curdir s' = [cwd s]
       \<and> (\<exists>made. calls s' = calls s @ made \<and> pushes made = Suc (pops made)))"
proof (intro impI)
  assume r: "Filemaker load root fdef s = (None, s') \<or> FilemakerExplicit ev load root fdef s = (None, s')"
  let ?s = "s\<lparr>curdir := []\<rparr>"
  from r obtain v s1 where a: "pushd (VStr root) ?s = (None, s1)" and b: "balanced s1 s'"
  proof
    assume "Filemaker load root fdef s = (None, s')"
    then obtain v s1 where "pushd (VStr root) ?s = (None, s1)" "make_item v s1 = (None, s')"
      by (auto simp: Filemaker_def Let_def raise_def split: sum.splits prod.splits option.splits)
    then show thesis using make_item_balanced(1) that by blast
  next
    assume "FilemakerExplicit ev load root fdef s = (None, s')"
    then obtain v s1 where "pushd (VStr root) ?s = (None, s1)" "x_make_item ev v s1 = (None, s')"
      by (auto simp: FilemakerExplicit_def Let_def raise_def split: sum.splits prod.splits option.splits)
    then show thesis using x_make_item_balanced(1) that by blast
  qed
  from b obtain made where m: "curdir s' = curdir s1" "calls s' = calls s1 @ made"
    "pushes made = pops made" by (auto simp: balanced_def)
  from pushd_ok[OF a] m have "curdir s' = [cwd s]" "calls s' = calls s @ (Pushd (VStr root) # made)"
    by simp_all
  moreover have "pushes (Pushd (VStr root) # made) = Suc (pops (Pushd (VStr root) # made))"
    using m(3) by (simp add: pushes_def pops_def)
  ultimately show "curdir s' = [cwd s] \<and> (\<exists>made. calls s' = calls s @ made \<and> pushes made = Suc (pops made))"
    by blast
qed

theorem pushd_popd_balance_witness:
  "Filemaker (answering (VDict [(VStr ''d'', VNone)])) ''/work'' ''d:'' demo_state
     = (None, snd (Filemaker (answering (VDict [(VStr ''d'', VNone)])) ''/work'' ''d:'' demo_state))
   \<and> curdir (snd (Filemaker (answering (VDict [(VStr ''d'', VNone)])) ''/work'' ''d:'' demo_state))
       = [[''work'']]
   \<and> (\<exists>made. calls (snd (Filemaker (answering (VDict [(VStr ''d'', VNone)])) ''/work'' ''d:'' demo_state))
          = made \<and> pushes made = Suc (pops made))"
  using pushd_popd_balance [of "answering (VDict [(VStr ''d'', VNone)])" "''/work''" "''d:''" demo_state
      "snd (Filemaker (answering (VDict [(VStr ''d'', VNone)])) ''/work'' ''d:'' demo_state)" refuse_all]
  by (simp add: demo_run) (simp add: demo_state_def)

text \<open>
  Claim C2 as the specification words it fails: for the document \<^verbatim>\<open>d:\<close> (one empty
  directory) the construction completes, \<^verbatim>\<open>self._curdir\<close> is not empty at the end and
  \<^verbatim>\<open>pushd\<close> was called twice, \<^verbatim>\<open>popd\<close> once.
\<close>

theorem pushd_popd_balance_counterexample:
  "fst (Filemaker (answering (VDict [(VStr ''d'', VNone)])) ''/work'' ''d:'' demo_state) = None
   \<and> curdir (snd (Filemaker (answering (VDict [(VStr ''d'', VNone)])) ''/work'' ''d:'' demo_state))
        \<noteq> []
   \<and> pushes (calls (snd (Filemaker (answering (VDict [(VStr ''d'', VNone)])) ''/work'' ''d:'' demo_state)))
        = 2
   \<and> pops (calls (snd (Filemaker (answering (VDict [(VStr ''d'', VNone)])) ''/work'' ''d:'' demo_state)))
        = 1"
  by (simp add: demo_run pushes_def pops_def)

section \<open>Properties of the explicit dialect\<close>

lemma walk_normcomps: "walk f cur cs = Inr p \<Longrightarrow> p = normcomps cur cs"
  by (induction f cur cs rule: walk.induct)
     (auto split: option.splits node.splits if_splits)

lemma resolve_abspath: "resolve f wd name = Inr p \<Longrightarrow> p = abspath wd name"
  by (auto simp: resolve_def abspath_def split: if_splits dest: walk_normcomps)

lemma make_file_ok:
  assumes "make_file n c s = (None, s1)"
  shows "\<exists>name tx. n = VStr name \<and> c = VStr tx
           \<and> s1 = s\<lparr>calls := calls s @ [MakeFile n c],
                     fs := (fs s)(abspath (cwd s) name \<mapsto> File tx)\<rparr>"
  using assms
  by (auto simp: make_file_def os_write_file_def called_def ok_def raise_def
      split: pyval.splits sum.splits if_splits dest!: resolve_abspath)

lemma pushd_file_raises:
  "fs s (abspath (cwd s) name) = Some (File tx) \<Longrightarrow>
     pushd (VStr name) s =
       (Some (OSError NotADirectory),
        s\<lparr>calls := calls s @ [Pushd (VStr name)], curdir := curdir s @ [cwd s]\<rparr>)"
  by (simp add: pushd_def Let_def called_def os_chdir_def raise_def)

lemma x_for_key_on_file:
  "fs s (abspath (cwd s) name) = Some (File tx) \<Longrightarrow>
     fs (snd (x_for_key ev (VStr name) rest s)) = fs s
     \<and> (VStr ''children'' \<in> fst ` set rest \<longrightarrow> fst (x_for_key ev (VStr name) rest s) \<noteq> None)
     \<and> (VStr ''children'' \<notin> fst ` set rest \<longrightarrow> calls (snd (x_for_key ev (VStr name) rest s)) = calls s)"
proof (induction rest arbitrary: s)
  case Nil
  then show ?case by (simp add: ok_def)
next
  case (Cons kv rest)
  obtain key v where kv: "kv = (key, v)" by (cases kv)
  show ?case
  proof (cases "key = VStr ''children''")
    case True
    then show ?thesis using kv pushd_file_raises[OF Cons.prems] by simp
  next
    case False
    show ?thesis
    proof (cases "self_keywords ev key")
      case None
      then show ?thesis using kv False Cons by (simp add: ok_def)
    next
      case (Some h)
      obtain r s1 where h: "h (VStr name) v s = (r, s1)" by force
      from handler_frame[OF Some h] have fr: "fs s1 = fs s" "cwd s1 = cwd s" "calls s1 = calls s"
        by simp_all
      show ?thesis
      proof (cases r)
        case None
        have "fs s1 (abspath (cwd s1) name) = Some (File tx)" using fr Cons.prems by simp
        from Cons.IH[OF this] show ?thesis using kv False Some h None fr by simp
      next
        case (Some e)
        then show ?thesis using kv False \<open>self_keywords ev key = Some h\<close> h fr by simp
      qed
    qed
  qed
qed

text \<open>
  Claim C8, as the code has it. For a node that takes the \<^verbatim>\<open>file\<close> branch, the file
  system is changed by the one \<^verbatim>\<open>make_file\<close> call and by nothing else: the file is
  made with its content and nothing is created from \<^verbatim>\<open>children\<close>. But a
  \<^verbatim>\<open>children\<close> key is not ignored: the loop calls \<^verbatim>\<open>pushd\<close> on the name of the
  file, which cannot be entered, so a node with \<^verbatim>\<open>file\<close> and \<^verbatim>\<open>children\<close> always
  ends in an exception. Without a \<^verbatim>\<open>children\<close> key the node calls the back end once,
  for \<^verbatim>\<open>make_file\<close>: no directory is entered.
\<close>

theorem file_with_children:
  assumes "map_of dct (VStr ''directory'') = None" and "map_of dct (VStr ''file'') = Some f"
  shows "fs (snd (x_make_dict_item ev dct s))
           = fs (snd (make_file f (case map_of dct (VStr ''content'') of Some c \<Rightarrow> c | None \<Rightarrow> VStr []) s))
       \<and> (VStr ''children'' \<in> fst ` set dct \<longrightarrow> fst (x_make_dict_item ev dct s) \<noteq> None)
       \<and> (VStr ''children'' \<notin> fst ` set dct \<longrightarrow>
            calls (snd (x_make_dict_item ev dct s))
              = calls s @ [MakeFile f (case map_of dct (VStr ''content'') of Some c \<Rightarrow> c | None \<Rightarrow> VStr [])])"
proof -
  let ?c = "case map_of dct (VStr ''content'') of Some c \<Rightarrow> c | None \<Rightarrow> VStr []"
  obtain r s1 where mf: "make_file f ?c s = (r, s1)" by force
  show ?thesis
  proof (cases r)
    case (Some e)
    then show ?thesis using assms mf make_file_frame[OF mf]
      by (simp add: x_make_dict_item_def)
  next
    case None
    with mf make_file_ok obtain name tx where
      n: "f = VStr name" and s1: "s1 = s\<lparr>calls := calls s @ [MakeFile f ?c],
                     fs := (fs s)(abspath (cwd s) name \<mapsto> File tx)\<rparr>"
      by blast
    have "fs s1 (abspath (cwd s1) name) = Some (File tx)" using s1 by simp
    from x_for_key_on_file[OF this, of ev dct] show ?thesis
      using assms mf None n s1 by (simp add: x_make_dict_item_def)
  qed
qed

lemma file_with_children_run:
  "x_make_dict_item refuse_all
      [(VStr ''file'', VStr ''f''), (VStr ''content'', VStr ''x''), (VStr ''children'', VList [])]
      demo_state
   = (Some (OSError NotADirectory),
      demo_state\<lparr>fs := (fs demo_state)([''work'', ''f''] \<mapsto> File ''x''),
        curdir := [[''work'']],
        calls := [MakeFile (VStr ''f'') (VStr ''x''), Pushd (VStr ''f'')]\<rparr>)"
  by (simp add: x_make_dict_item_def demo_state_def pushd_def make_file_def os_write_file_def
      os_chdir_def called_def ok_def raise_def abspath_def isabs_def resolve_def Let_def
      self_keywords_def)

theorem file_with_children_witness:
  "map_of [(VStr ''file'', VStr ''f''), (VStr ''content'', VStr ''x''), (VStr ''children'', VList [])]
      (VStr ''directory'') = None
   \<and> map_of [(VStr ''file'', VStr ''f''), (VStr ''content'', VStr ''x''), (VStr ''children'', VList [])]
      (VStr ''file'') = Some (VStr ''f'')
   \<and> VStr ''children'' \<in> fst ` set [(VStr ''file'', VStr ''f''), (VStr ''content'', VStr ''x''),
                                        (VStr ''children'', VList [])]
   \<and> fst (x_make_dict_item refuse_all
        [(VStr ''file'', VStr ''f''), (VStr ''content'', VStr ''x''), (VStr ''children'', VList [])]
        demo_state) \<noteq> None
   \<and> fs (snd (x_make_dict_item refuse_all
        [(VStr ''file'', VStr ''f''), (VStr ''content'', VStr ''x''), (VStr ''children'', VList [])]
        demo_state))
      = fs (snd (make_file (VStr ''f'') (VStr ''x'') demo_state))"
proof -
  let ?dct = "[(VStr ''file'', VStr ''f''), (VStr ''content'', VStr ''x''), (VStr ''children'', VList [])]"
  have a: "map_of ?dct (VStr ''directory'') = None" by simp
  have b: "map_of ?dct (VStr ''file'') = Some (VStr ''f'')" by simp
  have c: "VStr ''children'' \<in> fst ` set ?dct" by simp
  have d: "(case map_of ?dct (VStr ''content'') of Some c \<Rightarrow> c | None \<Rightarrow> VStr []) = VStr ''x''"
    by simp
  from file_with_children [OF a b, of refuse_all demo_state] c d a b show ?thesis
    by (simp only:) simp
qed

text \<open>
  Claim C8 as the specification words it fails: the node
  \<^verbatim>\<open>{file: f, content: x, children: []}\<close> makes the file \<^verbatim>\<open>/work/f\<close> and then
  raises \<^verbatim>\<open>NotADirectoryError\<close>, from the \<^verbatim>\<open>pushd\<close> it calls for \<^verbatim>\<open>children\<close>.
\<close>

theorem file_with_children_counterexample:
  "fst (x_make_dict_item refuse_all
        [(VStr ''file'', VStr ''f''), (VStr ''content'', VStr ''x''), (VStr ''children'', VList [])]
        demo_state) = Some (OSError NotADirectory)
   \<and> fs (snd (x_make_dict_item refuse_all
        [(VStr ''file'', VStr ''f''), (VStr ''content'', VStr ''x''), (VStr ''children'', VList [])]
        demo_state)) [''work'', ''f''] = Some (File ''x'')
   \<and> calls (snd (x_make_dict_item refuse_all
        [(VStr ''file'', VStr ''f''), (VStr ''content'', VStr ''x''), (VStr ''children'', VList [])]
        demo_state)) = [MakeFile (VStr ''f'') (VStr ''x''), Pushd (VStr ''f'')]"
  by (simp add: file_with_children_run)

lemma pushd_work:
  "pushd (VStr ''/work'') (demo_state\<lparr>curdir := []\<rparr>)
     = (None, demo_state\<lparr>curdir := [[''work'']], calls := [Pushd (VStr ''/work'')]\<rparr>)"
  by (simp add: demo_state_def pushd_def os_chdir_def called_def ok_def abspath_def isabs_def Let_def)

text \<open>
  Claim C7. A mapping with neither a \<^verbatim>\<open>file\<close> nor a \<^verbatim>\<open>directory\<close> key makes
  \<^verbatim>\<open>FilemakerExplicit.make_dict_item\<close> raise \<^verbatim>\<open>UnknownType\<close>, before anything is
  done; and so the walk raises it wherever it comes to such a node: as an element of a
  list, as the \<^verbatim>\<open>children\<close> of a node whose directory could be entered, and as the
  whole document, once \<^verbatim>\<open>pushd(root)\<close> has succeeded.
\<close>

theorem explicit_needs_discriminator:
  assumes "map_of dct (VStr ''file'') = None" and "map_of dct (VStr ''directory'') = None"
  shows "x_make_dict_item ev dct s = (Some UnknownType_structure, s)
       \<and> x_make_list_item ev (VDict dct # lst) s = (Some UnknownType_structure, s)
       \<and> (pushd cur s = (None, s1) \<longrightarrow>
            x_for_key ev cur ((VStr ''children'', VDict dct) # rest) s = (Some UnknownType_structure, s1))
       \<and> (load fdef = Inr (VDict dct) \<and> pushd (VStr root) (s\<lparr>curdir := []\<rparr>) = (None, s1) \<longrightarrow>
            FilemakerExplicit ev load root fdef s = (Some UnknownType_structure, s1))"
  using assms by (simp add: x_make_dict_item_def FilemakerExplicit_def raise_def Let_def)

theorem explicit_needs_discriminator_witness:
  "map_of [(VStr ''name'', VStr ''x'')] (VStr ''file'') = None
   \<and> map_of [(VStr ''name'', VStr ''x'')] (VStr ''directory'') = None
   \<and> x_make_dict_item refuse_all [(VStr ''name'', VStr ''x'')] demo_state
        = (Some UnknownType_structure, demo_state)
   \<and> x_make_list_item refuse_all [VDict [(VStr ''name'', VStr ''x'')]] demo_state
        = (Some UnknownType_structure, demo_state)
   \<and> FilemakerExplicit refuse_all (answering (VDict [(VStr ''name'', VStr ''x'')])) ''/work''
        ''name: x'' demo_state
        = (Some UnknownType_structure,
           demo_state\<lparr>curdir := [[''work'']], calls := [Pushd (VStr ''/work'')]\<rparr>)"
proof -
  have a: "map_of [(VStr ''name'', VStr ''x'')] (VStr ''file'') = None" by simp
  have b: "map_of [(VStr ''name'', VStr ''x'')] (VStr ''directory'') = None" by simp
  have c: "answering (VDict [(VStr ''name'', VStr ''x'')]) ''name: x''
             = Inr (VDict [(VStr ''name'', VStr ''x'')])" by (simp add: answering_def)
  from explicit_needs_discriminator [OF a b, of refuse_all demo_state "[]" "VStr ''/work''"
      "demo_state\<lparr>curdir := [[''work'']], calls := [Pushd (VStr ''/work'')]\<rparr>" "[]"
      "answering (VDict [(VStr ''name'', VStr ''x'')])" "''name: x''" "''/work''"]
    a b c pushd_work
  show ?thesis by blast
qed







section \<open>Metadata that the operating system refuses to change\<close>

















section \<open>The implicit dialect on the example of the specification\<close>

lemma str_int_1: "str_int 1 = ''1''" and str_int_2: "str_int 2 = ''2''"
  by (simp_all add: str_int_def str_nat.simps digit_char_def)

text \<open>
  Claim C1. For the mapping \<^verbatim>\<open>{"a": {"b": "hello", "c": [1, 2]}}\<close>, built below a root
  directory that exists and has nothing named \<^verbatim>\<open>a\<close> in it, \<^verbatim>\<open>Filemaker\<close> raises
  nothing and adds exactly five entries to the file system: the directory \<^verbatim>\<open>a\<close>, in it
  the file \<^verbatim>\<open>b\<close> with content \<^verbatim>\<open>hello\<close> and the directory \<^verbatim>\<open>c\<close>, and in
  \<^verbatim>\<open>c\<close> the empty files \<^verbatim>\<open>1\<close> and \<^verbatim>\<open>2\<close>. The process ends in the root
  directory.
\<close>

theorem implicit_round_trip:
  assumes doc: "load fdef = Inr (VDict [(VStr ''a'',
              VDict [(VStr ''b'', VStr ''hello''), (VStr ''c'', VList [VInt 1, VInt 2])])])"
    and root: "fs s (abspath (cwd s) root) = Some Dir"
    and fresh: "\<forall>q. fs s (abspath (cwd s) root @ ''a'' # q) = None"
  shows "\<exists>s'. Filemaker load root fdef s = (None, s')
       \<and> fs s' = (fs s)
           (abspath (cwd s) root @ [''a''] \<mapsto> Dir,
            abspath (cwd s) root @ [''a'', ''b''] \<mapsto> File ''hello'',
            abspath (cwd s) root @ [''a'', ''c''] \<mapsto> Dir,
            abspath (cwd s) root @ [''a'', ''c'', ''1''] \<mapsto> File [],
            abspath (cwd s) root @ [''a'', ''c'', ''2''] \<mapsto> File [])
       \<and> cwd s' = abspath (cwd s) root"
proof -
  define R where "R = abspath (cwd s) root"
  have f: "fs s (R @ [''a'']) = None" "fs s (R @ [''a'', ''b'']) = None"
    "fs s (R @ [''a'', ''c'']) = None" "fs s (R @ [''a'', ''c'', ''1'']) = None"
    "fs s (R @ [''a'', ''c'', ''2'']) = None"
    using fresh by (simp_all add: R_def)
  have r: "fs s R = Some Dir" using root by (simp add: R_def)
  show ?thesis
    unfolding R_def[symmetric]
    by (simp add: Filemaker_def doc f r str_int_1 str_int_2
      pushd_def popd_def mkdir_def os_mkdir_def make_file_def os_write_file_def
      os_chdir_def called_def ok_def raise_def abspath_def[of "R @ _"] abspath_def[of R]
      isabs_def resolve_def Let_def R_def[symmetric])
qed

theorem implicit_round_trip_witness:
  "\<exists>s'. Filemaker
          (answering (VDict [(VStr ''a'',
              VDict [(VStr ''b'', VStr ''hello''), (VStr ''c'', VList [VInt 1, VInt 2])])]))
          ''/work'' ''a: {b: hello, c: [1, 2]}'' demo_state = (None, s')
     \<and> fs s' = [[] \<mapsto> Dir, [''work''] \<mapsto> Dir,
                 [''work'', ''a''] \<mapsto> Dir,
                 [''work'', ''a'', ''b''] \<mapsto> File ''hello'',
                 [''work'', ''a'', ''c''] \<mapsto> Dir,
                 [''work'', ''a'', ''c'', ''1''] \<mapsto> File [],
                 [''work'', ''a'', ''c'', ''2''] \<mapsto> File []]
     \<and> cwd s' = [''work'']"
proof -
  let ?doc = "VDict [(VStr ''a'',
              VDict [(VStr ''b'', VStr ''hello''), (VStr ''c'', VList [VInt 1, VInt 2])])]"
  have p: "abspath (cwd demo_state) ''/work'' = [''work'']"
    by (simp add: abspath_def isabs_def)
  have a: "answering ?doc ''a: {b: hello, c: [1, 2]}'' = Inr ?doc" by (simp add: answering_def)
  have b: "fs demo_state (abspath (cwd demo_state) ''/work'') = Some Dir"
    unfolding p by (simp add: demo_state_def)
  have c: "\<forall>q. fs demo_state (abspath (cwd demo_state) ''/work'' @ ''a'' # q) = None"
    unfolding p by (simp add: demo_state_def)
  have d: "fs demo_state = [[] \<mapsto> Dir, [''work''] \<mapsto> Dir]" by (simp add: demo_state_def)
  from implicit_round_trip [of "answering ?doc" "''a: {b: hello, c: [1, 2]}''" demo_state "''/work''",
      OF a b c]
  show ?thesis unfolding p d by simp
qed

section \<open>Properties of \<^verbatim>\<open>create_files\<close>\<close>



























end
